theory Spec2Isabelle
  imports Complex_Main "HOL-Library.Sublist"
begin

section \<open>Parameter model (core/parameters.py)\<close>

text \<open>
  Python floats are modelled as real numbers and Python ints as unbounded integers:
  the development verifies the coordinate arithmetic of the drawing generator, not its
  rounding. Every theorem below is a statement of exact real arithmetic.
\<close>

record CoilParameters =
  fin_length :: real
  fin_height :: real
  no_of_rows :: int
  tubes_per_row :: int
  tube_od_inch :: string
  tube_diameter :: real
  fpi :: int
  no_of_circuits :: int
  top_plate :: real
  bottom_plate :: real
  casing_left :: real
  casing_right :: real
  casing_top :: real
  casing_bottom :: real
  casing_thickness :: real
  coil_depth :: real
  header_depth :: real
  return_depth :: real
  connection_side :: string
  connection_extension :: real
  connection_vertical_gap :: real
  top_header_block_length :: real
  top_return_extension :: real
  top_right_step :: real
  top_pipe_fitting_outer_offset :: real
  top_pipe_fitting_inner_offset :: real
  top_pipe_stub_center_offset :: real
  top_pipe_stub_spacing :: real
  front_left_reference_extra :: real
  fin_material :: string
  fin_thickness :: real
  tube_wall_thickness :: real

text \<open>The field defaults of the dataclass.\<close>

definition default_params :: CoilParameters where
  "default_params =
     \<lparr> fin_length = 1330, fin_height = 1400, no_of_rows = 6, tubes_per_row = 35,
       tube_od_inch = ''5/8'', tube_diameter = 15.875, fpi = 13, no_of_circuits = 35,
       top_plate = 65, bottom_plate = 35,
       casing_left = 35, casing_right = 65, casing_top = 15, casing_bottom = 15,
       casing_thickness = 1.5,
       coil_depth = 207.6, header_depth = 320, return_depth = 320,
       connection_side = ''LHS'', connection_extension = 170, connection_vertical_gap = 75,
       top_header_block_length = 180, top_return_extension = 145, top_right_step = 12,
       top_pipe_fitting_outer_offset = 50, top_pipe_fitting_inner_offset = 25,
       top_pipe_stub_center_offset = 50, top_pipe_stub_spacing = 12,
       front_left_reference_extra = 150,
       fin_material = ''Plain Aluminium'', fin_thickness = 0.11, tube_wall_thickness = 0.4 \<rparr>"

subsection \<open>Computed properties\<close>

definition casing_width :: "CoilParameters \<Rightarrow> real" where
  "casing_width p = casing_left p + fin_length p + casing_right p"

definition casing_height :: "CoilParameters \<Rightarrow> real" where
  "casing_height p = casing_bottom p + fin_height p + casing_top p"

definition vertical_pitch :: "CoilParameters \<Rightarrow> real" where
  "vertical_pitch p =
     (if tubes_per_row p \<le> 1 then 0
      else (fin_height p - top_plate p - bottom_plate p) / of_int (tubes_per_row p - 1))"

definition row_pitch :: "CoilParameters \<Rightarrow> real" where
  "row_pitch p =
     (if no_of_rows p \<le> 1 then 0 else coil_depth p / of_int (no_of_rows p))"

subsection \<open>Validation\<close>

text \<open>
  \<open>getattr(params, name)\<close> over a tuple of names is a list of pairs of the name and
  the selector it reads. Both iterations append to \<open>errors\<close> in the order of the tuples.
\<close>

definition positive_fields :: "(string \<times> (CoilParameters \<Rightarrow> real)) list" where
  "positive_fields =
     [(''fin_length'', fin_length), (''fin_height'', fin_height),
      (''tube_diameter'', tube_diameter),
      (''casing_top'', casing_top), (''casing_bottom'', casing_bottom),
      (''casing_left'', casing_left), (''casing_right'', casing_right),
      (''casing_thickness'', casing_thickness), (''coil_depth'', coil_depth),
      (''header_depth'', header_depth),
      (''connection_extension'', connection_extension),
      (''connection_vertical_gap'', connection_vertical_gap),
      (''top_header_block_length'', top_header_block_length),
      (''top_return_extension'', top_return_extension),
      (''top_right_step'', top_right_step),
      (''top_pipe_fitting_outer_offset'', top_pipe_fitting_outer_offset),
      (''top_pipe_fitting_inner_offset'', top_pipe_fitting_inner_offset),
      (''top_pipe_stub_center_offset'', top_pipe_stub_center_offset),
      (''top_pipe_stub_spacing'', top_pipe_stub_spacing),
      (''front_left_reference_extra'', front_left_reference_extra)]"

definition count_fields :: "(string \<times> (CoilParameters \<Rightarrow> int)) list" where
  "count_fields =
     [(''no_of_rows'', no_of_rows), (''tubes_per_row'', tubes_per_row), (''fpi'', fpi)]"

definition plate_message :: string where
  "plate_message = ''Top plate + Bottom plate must be < Fin Height''"

fun check_positive ::
  "CoilParameters \<Rightarrow> (string \<times> (CoilParameters \<Rightarrow> real)) list \<Rightarrow> string list \<Rightarrow> string list"
where
  "check_positive p [] errors = errors"
| "check_positive p ((name, getattr) # rest) errors =
     check_positive p rest
       (if getattr p \<le> 0 then errors @ [name @ '' must be positive''] else errors)"

fun check_at_least_one ::
  "CoilParameters \<Rightarrow> (string \<times> (CoilParameters \<Rightarrow> int)) list \<Rightarrow> string list \<Rightarrow> string list"
where
  "check_at_least_one p [] errors = errors"
| "check_at_least_one p ((name, getattr) # rest) errors =
     check_at_least_one p rest
       (if getattr p < 1 then errors @ [name @ '' must be >= 1''] else errors)"

definition validate_parameters :: "CoilParameters \<Rightarrow> string list" where
  "validate_parameters p =
     (let errors = [];
          errors = check_positive p positive_fields errors;
          errors = check_at_least_one p count_fields errors;
          errors = (if top_plate p + bottom_plate p \<ge> fin_height p
                    then errors @ [plate_message] else errors)
      in errors)"

section \<open>Geometry engine (core/geometry_engine.py)\<close>

text \<open>
  Primitives are tuples, as in the source: a rectangle is \<open>(x, y, width, height)\<close>, a
  line segment \<open>(x1, y1, x2, y2)\<close>, a circle \<open>(cx, cy, r)\<close>, an arc
  \<open>(cx, cy, r, start, span)\<close> with angles in degrees.
\<close>

type_synonym point = "real \<times> real"
type_synonym rect = "real \<times> real \<times> real \<times> real"
type_synonym segment = "real \<times> real \<times> real \<times> real"
type_synonym circle = "real \<times> real \<times> real"
type_synonym arc = "real \<times> real \<times> real \<times> real \<times> real"

datatype py_error = ZeroDivisionError

text \<open>
  \<open>range(start, stop, step)\<close> for a positive step, the only kind the engine uses (the step
  is the literal 2 or \<open>max(1, _)\<close>); \<open>range(n)\<close> is the interval \<open>[0..n - 1]\<close>, empty
  when \<open>n \<le> 0\<close>.
\<close>

function py_range :: "int \<Rightarrow> int \<Rightarrow> int \<Rightarrow> int list" where
  "py_range i stop step =
     (if 0 < step \<and> i < stop then i # py_range (i + step) stop step else [])"
  by pat_completeness auto
termination
  by (relation "measure (\<lambda>(i, stop, step). nat (stop - i))") auto

declare py_range.simps [simp del]

text \<open>\<open>int(x)\<close> of a float truncates towards zero.\<close>

definition py_int :: "real \<Rightarrow> int" where
  "py_int x = (if 0 \<le> x then \<lfloor>x\<rfloor> else \<lceil>x\<rceil>)"

text \<open>
  The geometry dictionaries become records; the keys every view has are the base record.
  The key \<open>"top_right_step"\<close> of the top view is written \<open>top_right_step'\<close>, the plain name
  being the parameter field.
\<close>

record view_geometry =
  view_type :: string
  outer_rect :: rect
  params :: CoilParameters

record fin_view_geometry = view_geometry +
  fin_rect :: rect

record front_geometry = fin_view_geometry +
  fin_lines :: "segment list"

record side_geometry = view_geometry +
  inner_rect :: rect
  offset_lines :: "segment list"
  tubes :: "circle list"

record connection_pipe =
  line :: segment
  label :: string
  label_pos :: point

record top_geometry = fin_view_geometry +
  header_block_rect :: rect
  zone_lines :: "segment list"
  tube_lines :: "segment list"
  connection_pipes :: "connection_pipe list"
  pipe_circles :: "circle list"
  pipe_stubs :: "segment list"
  bend_arcs :: "arc list"
  return_rect :: rect
  top_right_box :: rect
  pipe_ext :: real
  return_ext :: real
  margin :: real
  total_width :: real
  header_block_len :: real
  pipe_gap :: real
  top_right_step' :: real

subsection \<open>Front view\<close>

text \<open>\<open>25.4 / params.fpi\<close> raises \<open>ZeroDivisionError\<close> when \<open>fpi\<close> is 0.\<close>

definition generate_front_geometry :: "CoilParameters \<Rightarrow> py_error + front_geometry" where
  "generate_front_geometry p =
     (let CW = casing_width p; CH = casing_height p;
          cl = casing_left p; cr = casing_right p;
          ct = casing_top p; cb = casing_bottom p;
          FL = fin_length p; FH = fin_height p
      in if fpi p = 0 then Inl ZeroDivisionError
         else
           let fin_spacing = 25.4 / of_int (fpi p);
               n_fins = py_int (FH / fin_spacing);
               step = max 1 (n_fins div 40);
               fin_line = (\<lambda>i. let y = cb + of_int i * fin_spacing
                                 in if y < cb + FH then [(cl, y, cl + FL, y)] else [])
           in Inr \<lparr> view_type = ''FRONT'',
                    outer_rect = (0, 0, CW, CH),
                    params = p,
                    fin_rect = (cl, cb, FL, FH),
                    fin_lines = concat (map fin_line (py_range 0 n_fins step)) \<rparr>)"

subsection \<open>Header side and return end side\<close>

definition generate_header_geometry :: "CoilParameters \<Rightarrow> side_geometry" where
  "generate_header_geometry p =
     (let HD = header_depth p; TP = top_plate p; BP = bottom_plate p;
          NR = no_of_rows p; TPR = tubes_per_row p;
          VP = vertical_pitch p; RP = row_pitch p;
          tube_r = tube_diameter p / 2;
          CH = (of_int TPR * VP) + TP + BP;
          bp_y = BP;
          tp_y = CH - TP;
          grid_w = RP * of_int NR;
          grid_h = of_int TPR * VP;
          grid_x = (HD - grid_w) / 2;
          grid_y = bp_y;
          row_tubes = (\<lambda>row.
             let cx = grid_x + RP / 2 + of_int row * RP;
                 y_start = grid_y + (if row mod 2 = 0 then VP / 4 else 3 * VP / 4)
             in map (\<lambda>t. (cx, y_start + of_int t * VP, tube_r)) [0..TPR - 1])
      in \<lparr> view_type = ''HEADER_SIDE'',
           outer_rect = (0, 0, HD, CH),
           params = p,
           inner_rect = (grid_x, grid_y, grid_w, grid_h),
           offset_lines = [(0, bp_y, HD, bp_y), (0, tp_y, HD, tp_y)],
           tubes = concat (map row_tubes [0..NR - 1]) \<rparr>)"

definition generate_return_geometry :: "CoilParameters \<Rightarrow> side_geometry" where
  "generate_return_geometry p =
     (let RD = return_depth p; TP = top_plate p; BP = bottom_plate p;
          NR = no_of_rows p; TPR = tubes_per_row p;
          VP = vertical_pitch p; RP = row_pitch p;
          tube_r = tube_diameter p / 2;
          CH = (of_int TPR * VP) + TP + BP;
          bp_y = BP;
          tp_y = CH - TP;
          grid_w = RP * of_int NR;
          grid_h = of_int TPR * VP;
          grid_x = (RD - grid_w) / 2;
          grid_y = bp_y;
          row_tubes = (\<lambda>row.
             let cx = grid_x + grid_w - (RP / 2 + of_int row * RP);
                 y_start = grid_y + (if row mod 2 = 0 then VP / 4 else 3 * VP / 4)
             in map (\<lambda>t. (cx, y_start + of_int t * VP, tube_r)) [0..TPR - 1])
      in \<lparr> view_type = ''RETURN_END'',
           outer_rect = (0, 0, RD, CH),
           params = p,
           inner_rect = (grid_x, grid_y, grid_w, grid_h),
           offset_lines = [(0, bp_y, RD, bp_y), (0, tp_y, RD, tp_y)],
           tubes = concat (map row_tubes [0..NR - 1]) \<rparr>)"

subsection \<open>Top view\<close>

text \<open>
  The three lists \<open>connection_pipes\<close>, \<open>pipe_circles\<close> and \<open>pipe_stubs\<close> are filled by
  one of two branches; each branch below returns the three lists it builds.
\<close>

definition lhs_connection ::
  "real \<Rightarrow> real \<Rightarrow> real \<Rightarrow> real \<Rightarrow> real \<Rightarrow> real \<Rightarrow> real \<Rightarrow> real \<Rightarrow> real \<Rightarrow>
   connection_pipe list \<times> circle list \<times> segment list"
where
  "lhs_connection ext block_len fit_outer_off fit_inner_off stub_center_off
     stub_spacing pipe_r pipe_y_in pipe_y_out =
     ([\<lparr> line = (- ext, pipe_y_in, block_len, pipe_y_in),
         label = ''IN'', label_pos = (- ext - 20, pipe_y_in) \<rparr>,
       \<lparr> line = (- ext, pipe_y_out, block_len, pipe_y_out),
         label = ''OUT'', label_pos = (- ext - 25, pipe_y_out) \<rparr>],
      [(- ext + fit_outer_off, pipe_y_in, pipe_r),
       (block_len - fit_inner_off, pipe_y_in, pipe_r),
       (- ext + fit_outer_off, pipe_y_out, pipe_r),
       (block_len - fit_inner_off, pipe_y_out, pipe_r)],
      [(- ext + stub_center_off - stub_spacing / 2, pipe_y_in - pipe_r,
        - ext + stub_center_off - stub_spacing / 2, pipe_y_in + pipe_r),
       (- ext + stub_center_off + stub_spacing / 2, pipe_y_in - pipe_r,
        - ext + stub_center_off + stub_spacing / 2, pipe_y_in + pipe_r),
       (- ext + stub_center_off - stub_spacing / 2, pipe_y_out - pipe_r,
        - ext + stub_center_off - stub_spacing / 2, pipe_y_out + pipe_r),
       (- ext + stub_center_off + stub_spacing / 2, pipe_y_out - pipe_r,
        - ext + stub_center_off + stub_spacing / 2, pipe_y_out + pipe_r)])"

definition rhs_connection ::
  "real \<Rightarrow> real \<Rightarrow> real \<Rightarrow> real \<Rightarrow> real \<Rightarrow> real \<Rightarrow> real \<Rightarrow> real \<Rightarrow>
   connection_pipe list \<times> circle list \<times> segment list"
where
  "rhs_connection CW ext block_len fit_outer_off fit_inner_off
     pipe_r pipe_y_in pipe_y_out =
     ([\<lparr> line = (CW - block_len, pipe_y_in, CW + ext, pipe_y_in),
         label = ''IN'', label_pos = (CW + ext + 15, pipe_y_in) \<rparr>,
       \<lparr> line = (CW - block_len, pipe_y_out, CW + ext, pipe_y_out),
         label = ''OUT'', label_pos = (CW + ext + 15, pipe_y_out) \<rparr>],
      [(CW + ext - fit_outer_off, pipe_y_in, pipe_r),
       (CW - block_len + fit_inner_off, pipe_y_in, pipe_r),
       (CW + ext - fit_outer_off, pipe_y_out, pipe_r),
       (CW - block_len + fit_inner_off, pipe_y_out, pipe_r)],
      [])"

definition generate_top_geometry :: "CoilParameters \<Rightarrow> top_geometry" where
  "generate_top_geometry p =
     (let CW = casing_width p; cl = casing_left p; cr = casing_right p;
          FL = fin_length p; HD = header_depth p; CD = coil_depth p;
          NR = no_of_rows p; RP = row_pitch p;
          tube_r = tube_diameter p / 2;
          margin = (HD - CD) / 2;
          pipe_ext = connection_extension p;
          pipe_gap = connection_vertical_gap p;
          header_block_len = min (top_header_block_length p) CW;
          return_ext = top_return_extension p;
          top_right_step = top_right_step p;
          fit_outer_off = top_pipe_fitting_outer_offset p;
          fit_inner_off = top_pipe_fitting_inner_offset p;
          stub_center_off = top_pipe_stub_center_offset p;
          stub_spacing = top_pipe_stub_spacing p;
          row_lines = (\<lambda>row.
             let yc = margin + RP / 2 + of_int row * RP
             in [(header_block_len, yc - tube_r, CW, yc - tube_r),
                 (header_block_len, yc + tube_r, CW, yc + tube_r)]);
          pipe_r = tube_r;
          y_centre = HD / 2;
          pipe_y_in = y_centre - pipe_gap / 2;
          pipe_y_out = y_centre + pipe_gap / 2;
          (connection_pipes, pipe_circles, pipe_stubs) =
            (if connection_side p = ''LHS''
             then lhs_connection pipe_ext header_block_len fit_outer_off fit_inner_off
                    stub_center_off stub_spacing pipe_r pipe_y_in pipe_y_out
             else rhs_connection CW pipe_ext header_block_len fit_outer_off fit_inner_off
                    pipe_r pipe_y_in pipe_y_out);
          bend_arc = (\<lambda>row.
             let y1 = margin + RP / 2 + of_int row * RP;
                 y2 = margin + RP / 2 + of_int (row + 1) * RP;
                 mid_y = (y1 + y2) / 2;
                 r = (y2 - y1) / 2
             in (CW + cr, mid_y, r, - 90, 180))
      in \<lparr> view_type = ''TOP'',
           outer_rect = (0, 0, CW, HD),
           params = p,
           fin_rect = (cl, margin, FL, CD),
           header_block_rect = (0, margin, min header_block_len CW, CD),
           zone_lines = [(header_block_len, margin, CW, margin),
                         (header_block_len, margin + CD, CW, margin + CD)],
           tube_lines = concat (map row_lines [0..NR - 1]),
           connection_pipes = connection_pipes,
           pipe_circles = pipe_circles,
           pipe_stubs = pipe_stubs,
           bend_arcs = map bend_arc (py_range 0 (NR - 1) 2),
           return_rect = (CW, margin, return_ext, CD),
           top_right_box = (CW, 0, top_right_step, margin),
           pipe_ext = pipe_ext,
           return_ext = return_ext,
           margin = margin,
           total_width = pipe_ext + CW + return_ext,
           header_block_len = header_block_len,
           pipe_gap = pipe_gap,
           top_right_step' = top_right_step \<rparr>)"

section \<open>Dimension engine (core/dimension_engine.py)\<close>

definition ARROW_LEN :: real where "ARROW_LEN = 3"
definition ARROW_ANGLE :: real where "ARROW_ANGLE = 25"
definition EXT_GAP :: real where "EXT_GAP = 2"
definition EXT_OVER :: real where "EXT_OVER = 3"
definition DIM_OFF :: real where "DIM_OFF = 15"

text \<open>\<open>math.radians\<close>.\<close>

definition radians :: "real \<Rightarrow> real" where
  "radians d = d * pi / 180"

definition arrowhead_lines :: "real \<Rightarrow> real \<Rightarrow> real \<Rightarrow> segment list" where
  "arrowhead_lines tx ty a_deg =
     (let a = radians a_deg;
          ha = radians ARROW_ANGLE;
          leg = (\<lambda>s. let dx = - ARROW_LEN * cos (a + s * ha);
                         dy = - ARROW_LEN * sin (a + s * ha)
                     in (tx, ty, tx + dx, ty + dy))
      in map leg [1, - 1])"

text \<open>
  The two linear dimensions. The default label is a float formatted by
  \<open>f"{_:.1f}"\<close>; the formatter is the parameter \<open>fmt\<close>.
\<close>

record dimension =
  lines :: "segment list"
  arrows :: "(real \<times> real \<times> real) list"
  texts :: "(real \<times> real \<times> string \<times> real) list"

definition hdim ::
  "(real \<Rightarrow> string) \<Rightarrow> point \<Rightarrow> point \<Rightarrow> real \<Rightarrow> string option \<Rightarrow> bool \<Rightarrow> dimension"
where
  "hdim fmt p1 p2 offset text above' =
     (let text = (case text of None \<Rightarrow> fmt \<bar>fst p2 - fst p1\<bar> | Some t \<Rightarrow> t);
          sign = (if above' then 1 else - 1);
          dy = sign * \<bar>offset\<bar>;
          dim_y = snd p1 + dy
      in \<lparr> lines = [(fst p1, snd p1 + sign * EXT_GAP, fst p1, dim_y + sign * EXT_OVER),
                     (fst p2, snd p2 + sign * EXT_GAP, fst p2, dim_y + sign * EXT_OVER),
                     (fst p1, dim_y, fst p2, dim_y)],
           arrows = [(fst p1, dim_y, 0), (fst p2, dim_y, 180)],
           texts = [((fst p1 + fst p2) / 2, dim_y, text, 0)] \<rparr>)"

definition vdim ::
  "(real \<Rightarrow> string) \<Rightarrow> point \<Rightarrow> point \<Rightarrow> real \<Rightarrow> string option \<Rightarrow> bool \<Rightarrow> dimension"
where
  "vdim fmt p1 p2 offset text right' =
     (let text = (case text of None \<Rightarrow> fmt \<bar>snd p2 - snd p1\<bar> | Some t \<Rightarrow> t);
          sign = (if right' then 1 else - 1);
          dx = sign * \<bar>offset\<bar>;
          dim_x = fst p1 + dx
      in \<lparr> lines = [(fst p1 + sign * EXT_GAP, snd p1, dim_x + sign * EXT_OVER, snd p1),
                     (fst p2 + sign * EXT_GAP, snd p2, dim_x + sign * EXT_OVER, snd p2),
                     (dim_x, snd p1, dim_x, snd p2)],
           arrows = [(dim_x, snd p1, 90), (dim_x, snd p2, 270)],
           texts = [(dim_x, (snd p1 + snd p2) / 2, text, 90)] \<rparr>)"

section \<open>Layout engine (core/layout_engine.py)\<close>

definition VIEW_GAP :: real where "VIEW_GAP = 80"

text \<open>
  A view descriptor carries its label, its offset and its geometry record. The dimension
  records, the notes and the title block are text built from the same geometry; they take
  no part in the placement, none of their generators raises, and the model leaves them out.
\<close>

datatype geometry_record =
  FrontGeometry front_geometry
| SideGeometry side_geometry
| TopGeometry top_geometry

fun geometry_outer_rect :: "geometry_record \<Rightarrow> rect" where
  "geometry_outer_rect (FrontGeometry g) = outer_rect g"
| "geometry_outer_rect (SideGeometry g) = outer_rect g"
| "geometry_outer_rect (TopGeometry g) = outer_rect g"

record ViewDescriptor =
  view_label :: string
  offset_x :: real
  offset_y :: real
  geometry :: geometry_record

record DrawingLayout =
  views :: "ViewDescriptor list"
  notes_offset :: point
  title_block_offset :: point

definition generate_layout :: "CoilParameters \<Rightarrow> py_error + DrawingLayout" where
  "generate_layout p =
     (case generate_front_geometry p of
        Inl e \<Rightarrow> Inl e
      | Inr front_geo \<Rightarrow>
          let header_geo = generate_header_geometry p;
              return_geo = generate_return_geometry p;
              top_geo = generate_top_geometry p;
              (_, _, front_w, front_h) = outer_rect front_geo;
              (_, _, header_w, header_h) = outer_rect header_geo;
              (_, _, return_w, return_h) = outer_rect return_geo;
              (_, _, top_w, top_h) = outer_rect top_geo;
              bottom_y = top_h + VIEW_GAP;
              header_x = 0;
              front_x = header_w + VIEW_GAP;
              return_x = front_x + front_w + VIEW_GAP;
              top_x = front_x;
              top_y = 0;
              notes_y = bottom_y + max (max front_h header_h) return_h + VIEW_GAP / 2
          in Inr \<lparr> views =
                     [\<lparr> view_label = ''TOP'', offset_x = top_x, offset_y = top_y,
                        geometry = TopGeometry top_geo \<rparr>,
                      \<lparr> view_label = ''HEADER SIDE'', offset_x = header_x,
                        offset_y = bottom_y, geometry = SideGeometry header_geo \<rparr>,
                      \<lparr> view_label = ''FRONT'', offset_x = front_x, offset_y = bottom_y,
                        geometry = FrontGeometry front_geo \<rparr>,
                      \<lparr> view_label = ''RETURN END SIDE'', offset_x = return_x,
                        offset_y = bottom_y, geometry = SideGeometry return_geo \<rparr>],
                   notes_offset = (header_x, notes_y),
                   title_block_offset = (return_x, notes_y) \<rparr>)"

section \<open>Notions the properties are stated with\<close>

text \<open>Components of the tuples.\<close>

fun rect_x :: "rect \<Rightarrow> real" where "rect_x (x, y, w, h) = x"
fun rect_y :: "rect \<Rightarrow> real" where "rect_y (x, y, w, h) = y"
fun rect_w :: "rect \<Rightarrow> real" where "rect_w (x, y, w, h) = w"
fun rect_h :: "rect \<Rightarrow> real" where "rect_h (x, y, w, h) = h"

fun circle_x :: "circle \<Rightarrow> real" where "circle_x (cx, cy, r) = cx"
fun circle_y :: "circle \<Rightarrow> real" where "circle_y (cx, cy, r) = cy"

text \<open>Reflection about the vertical line \<open>x = c / 2\<close>, for each kind of primitive.\<close>

definition mirror_point :: "real \<Rightarrow> point \<Rightarrow> point" where
  "mirror_point c pt = (c - fst pt, snd pt)"

fun mirror_segment :: "real \<Rightarrow> segment \<Rightarrow> segment" where
  "mirror_segment c (x1, y1, x2, y2) = (c - x1, y1, c - x2, y2)"

fun mirror_circle :: "real \<Rightarrow> circle \<Rightarrow> circle" where
  "mirror_circle c (cx, cy, r) = (c - cx, cy, r)"

text \<open>The same segment with its end points listed in the other order.\<close>

fun swap_ends :: "segment \<Rightarrow> segment" where
  "swap_ends (x1, y1, x2, y2) = (x2, y2, x1, y1)"

fun segment_length :: "segment \<Rightarrow> real" where
  "segment_length (x1, y1, x2, y2) = sqrt ((x2 - x1)\<^sup>2 + (y2 - y1)\<^sup>2)"

text \<open>
  The bounding box of a placed view is its outer rectangle translated by the view's
  offset. A rectangle \<open>(x, y, w, h)\<close> covers the points between its corners \<open>(x, y)\<close> and
  \<open>(x + w, y + h)\<close>, whatever the signs of \<open>w\<close> and \<open>h\<close>, which is what the renderer's
  \<open>QRectF\<close> draws and intersects; two boxes intersect when they share a point.
\<close>

definition view_box :: "ViewDescriptor \<Rightarrow> rect" where
  "view_box v =
     (let (x, y, w, h) = geometry_outer_rect (geometry v)
      in (offset_x v + x, offset_y v + y, w, h))"

fun rect_points :: "rect \<Rightarrow> point set" where
  "rect_points (x, y, w, h) =
     {(u, v). min x (x + w) \<le> u \<and> u \<le> max x (x + w) \<and>
              min y (y + h) \<le> v \<and> v \<le> max y (y + h)}"

fun rects_intersect :: "rect \<Rightarrow> rect \<Rightarrow> bool" where
  "rects_intersect (x, y, w, h) (x', y', w', h') =
     (min x (x + w) \<le> max x' (x' + w') \<and> min x' (x' + w') \<le> max x (x + w) \<and>
      min y (y + h) \<le> max y' (y' + h') \<and> min y' (y' + h') \<le> max y (y + h))"

text \<open>No two boxes of a list intersect (\<open>rects_intersect\<close> is symmetric).\<close>

fun boxes_disjoint :: "rect list \<Rightarrow> bool" where
  "boxes_disjoint [] = True"
| "boxes_disjoint (b # bs) = (list_all (\<lambda>c. \<not> rects_intersect b c) bs \<and> boxes_disjoint bs)"

section \<open>Validation collects every violation\<close>

lemma check_positive_append:
  "check_positive p fs errors =
     errors @ map (\<lambda>(name, getattr). name @ '' must be positive'')
                  (filter (\<lambda>(name, getattr). getattr p \<le> 0) fs)"
  by (induction fs arbitrary: errors) auto

lemma check_at_least_one_append:
  "check_at_least_one p fs errors =
     errors @ map (\<lambda>(name, getattr). name @ '' must be >= 1'')
                  (filter (\<lambda>(name, getattr). getattr p < 1) fs)"
  by (induction fs arbitrary: errors) auto

lemma validate_parameters_eq:
  "validate_parameters p =
     map (\<lambda>(name, getattr). name @ '' must be positive'')
         (filter (\<lambda>(name, getattr). getattr p \<le> 0) positive_fields)
   @ map (\<lambda>(name, getattr). name @ '' must be >= 1'')
         (filter (\<lambda>(name, getattr). getattr p < 1) count_fields)
   @ (if top_plate p + bottom_plate p \<ge> fin_height p then [plate_message] else [])"
  by (simp add: validate_parameters_def Let_def check_positive_append
      check_at_least_one_append)

lemma positive_names_distinct: "distinct (map fst positive_fields)"
  by (simp add: positive_fields_def)

lemma count_names_distinct: "distinct (map fst count_fields)"
  by (simp add: count_fields_def)

lemma distinct_map_filter_suffix:
  "distinct (map fst fs) \<Longrightarrow>
   distinct (map (\<lambda>(name, getattr). name @ sfx) (filter P fs))"
  by (induction fs) (force simp: image_iff)+

lemma last_positive:
  "m \<in> set (map (\<lambda>(name, getattr). name @ '' must be positive'') fs) \<Longrightarrow> last m = CHR ''e''"
  by auto

lemma last_at_least:
  "m \<in> set (map (\<lambda>(name, getattr). name @ '' must be >= 1'') fs) \<Longrightarrow> last m = CHR ''1''"
  by auto

lemma last_plate: "last plate_message = CHR ''t''"
  by (simp add: plate_message_def)

lemma validate_default: "validate_parameters default_params = []"
  by (simp add: validate_parameters_eq default_params_def positive_fields_def
      count_fields_def)

text \<open>
  Claim C1, as the code has it. \<open>validate_parameters\<close> returns, in this order, the message
  \<open>"<field> must be positive"\<close> for each of the twenty fields of \<open>positive_fields\<close> whose
  value is not strictly positive, the message \<open>"<field> must be >= 1"\<close> for each of
  \<open>no_of_rows\<close>, \<open>tubes_per_row\<close> and \<open>fpi\<close> below 1, and the plate sentence when
  \<open>top_plate + bottom_plate \<ge> fin_height\<close>. Nothing stops at the first violation, and the
  messages are pairwise different: one message per violated invariant.
\<close>

theorem validate_parameters_collects:
  "validate_parameters p =
       map (\<lambda>(name, getattr). name @ '' must be positive'')
           (filter (\<lambda>(name, getattr). getattr p \<le> 0) positive_fields)
     @ map (\<lambda>(name, getattr). name @ '' must be >= 1'')
           (filter (\<lambda>(name, getattr). getattr p < 1) count_fields)
     @ (if top_plate p + bottom_plate p \<ge> fin_height p then [plate_message] else [])
   \<and> distinct (validate_parameters p)"
proof -
  let ?A = "map (\<lambda>(name, getattr). name @ '' must be positive'')
           (filter (\<lambda>(name, getattr). getattr p \<le> 0) positive_fields)"
  let ?B = "map (\<lambda>(name, getattr). name @ '' must be >= 1'')
           (filter (\<lambda>(name, getattr). getattr p < 1) count_fields)"
  let ?C = "(if top_plate p + bottom_plate p \<ge> fin_height p then [plate_message] else [])"
  have eq: "validate_parameters p = ?A @ ?B @ ?C"
    by (rule validate_parameters_eq)
  have dA: "distinct ?A"
    by (rule distinct_map_filter_suffix [OF positive_names_distinct])
  have dB: "distinct ?B"
    by (rule distinct_map_filter_suffix [OF count_names_distinct])
  have dC: "distinct ?C" by simp
  have AB: "set ?A \<inter> set ?B = {}"
  proof -
    { fix m assume "m \<in> set ?A" "m \<in> set ?B"
      then have "last m = CHR ''e''" "last m = CHR ''1''"
        using last_positive last_at_least by blast+
      then have False by simp }
    then show ?thesis by blast
  qed
  have AC: "set ?A \<inter> set ?C = {}"
  proof -
    { fix m assume "m \<in> set ?A" "m \<in> set ?C"
      then have "last m = CHR ''e''" "m = plate_message"
        using last_positive by (blast, simp split: if_splits)
      then have False using last_plate by simp }
    then show ?thesis by blast
  qed
  have BC: "set ?B \<inter> set ?C = {}"
  proof -
    { fix m assume "m \<in> set ?B" "m \<in> set ?C"
      then have "last m = CHR ''1''" "m = plate_message"
        using last_at_least by (blast, simp split: if_splits)
      then have False using last_plate by simp }
    then show ?thesis by blast
  qed
  have "distinct (?A @ ?B @ ?C)"
    using dA dB dC AB AC BC by (simp only: distinct_append set_append) blast
  with eq show ?thesis by simp
qed

text \<open>Three invariants violated at once give three messages, in the order of the checks.\<close>

theorem validate_parameters_collects_witness:
  "validate_parameters (default_params\<lparr>casing_left := - 1, no_of_rows := 0, top_plate := 2000\<rparr>)
     = [''casing_left must be positive'', ''no_of_rows must be >= 1'',
        ''Top plate + Bottom plate must be < Fin Height'']"
  using validate_parameters_collects
    [of "default_params\<lparr>casing_left := - 1, no_of_rows := 0, top_plate := 2000\<rparr>"]
  by (simp add: default_params_def positive_fields_def count_fields_def plate_message_def)

text \<open>
  The checked fields are not all the dimensions of the record: a top plate offset of 0 and a
  return depth of -1 are both accepted without a message.
\<close>

theorem validate_parameters_unchecked_counterexample:
  "top_plate (default_params\<lparr>top_plate := 0, return_depth := - 1\<rparr>) \<le> 0
   \<and> return_depth (default_params\<lparr>top_plate := 0, return_depth := - 1\<rparr>) \<le> 0
   \<and> validate_parameters (default_params\<lparr>top_plate := 0, return_depth := - 1\<rparr>) = []"
  by (simp add: validate_parameters_eq default_params_def positive_fields_def
      count_fields_def)

section \<open>Header-side and return-end-side views\<close>

lemma nth_concat_map_uniform:
  "(\<And>x. x \<in> set xs \<Longrightarrow> length (f x) = n) \<Longrightarrow> i < length xs \<Longrightarrow> j < n \<Longrightarrow>
   concat (map f xs) ! (i * n + j) = f (xs ! i) ! j"
proof (induction xs arbitrary: i)
  case Nil
  then show ?case by simp
next
  case (Cons x xs)
  have len: "length (f x) = n" using Cons.prems(1) by simp
  show ?case
  proof (cases i)
    case 0
    then show ?thesis using len Cons.prems(3) by (simp add: nth_append)
  next
    case (Suc k)
    have "concat (map f xs) ! (k * n + j) = f (xs ! k) ! j"
      using Cons.IH [of k] Cons.prems Suc by simp
    moreover have "Suc k * n + j = length (f x) + (k * n + j)"
      using len by simp
    ultimately show ?thesis
      using Suc by (simp only: list.map concat.simps nth_append_length_plus nth_Cons_Suc)
  qed
qed

lemma grid_index:
  assumes "0 \<le> r" "r < NR" "0 \<le> t" "t < TPR"
  shows "concat (map (\<lambda>row. map (g row) [0..TPR - 1]) [0..NR - 1]) ! nat (r * TPR + t) = g r t"
proof -
  have idx: "nat (r * TPR + t) = nat r * nat TPR + nat t"
    using assms by (simp add: nat_add_distrib nat_mult_distrib)
  have "concat (map (\<lambda>row. map (g row) [0..TPR - 1]) [0..NR - 1]) ! (nat r * nat TPR + nat t)
        = (\<lambda>row. map (g row) [0..TPR - 1]) ([0..NR - 1] ! nat r) ! nat t"
    using assms by (intro nth_concat_map_uniform) auto
  also have "\<dots> = g r t"
    using assms by simp
  finally show ?thesis using idx by simp
qed

lemma header_inner_rect:
  "inner_rect (generate_header_geometry p) =
     ((header_depth p - row_pitch p * of_int (no_of_rows p)) / 2, bottom_plate p,
      row_pitch p * of_int (no_of_rows p), of_int (tubes_per_row p) * vertical_pitch p)"
  by (simp add: generate_header_geometry_def Let_def)

lemma return_inner_rect:
  "inner_rect (generate_return_geometry p) =
     ((return_depth p - row_pitch p * of_int (no_of_rows p)) / 2, bottom_plate p,
      row_pitch p * of_int (no_of_rows p), of_int (tubes_per_row p) * vertical_pitch p)"
  by (simp add: generate_return_geometry_def Let_def)

lemma header_outer_rect:
  "outer_rect (generate_header_geometry p) =
     (0, 0, header_depth p,
      of_int (tubes_per_row p) * vertical_pitch p + top_plate p + bottom_plate p)"
  by (simp add: generate_header_geometry_def Let_def)

lemma return_outer_rect:
  "outer_rect (generate_return_geometry p) =
     (0, 0, return_depth p,
      of_int (tubes_per_row p) * vertical_pitch p + top_plate p + bottom_plate p)"
  by (simp add: generate_return_geometry_def Let_def)

lemma header_tubes_nth:
  assumes "0 \<le> r" "r < no_of_rows p" "0 \<le> t" "t < tubes_per_row p"
  shows "tubes (generate_header_geometry p) ! nat (r * tubes_per_row p + t) =
     ((header_depth p - row_pitch p * of_int (no_of_rows p)) / 2
        + row_pitch p / 2 + of_int r * row_pitch p,
      bottom_plate p + (if r mod 2 = 0 then vertical_pitch p / 4 else 3 * vertical_pitch p / 4)
        + of_int t * vertical_pitch p,
      tube_diameter p / 2)"
  unfolding generate_header_geometry_def Let_def
  by (simp add: grid_index [OF assms])

lemma return_tubes_nth:
  assumes "0 \<le> r" "r < no_of_rows p" "0 \<le> t" "t < tubes_per_row p"
  shows "tubes (generate_return_geometry p) ! nat (r * tubes_per_row p + t) =
     ((return_depth p - row_pitch p * of_int (no_of_rows p)) / 2
        + row_pitch p * of_int (no_of_rows p) - (row_pitch p / 2 + of_int r * row_pitch p),
      bottom_plate p + (if r mod 2 = 0 then vertical_pitch p / 4 else 3 * vertical_pitch p / 4)
        + of_int t * vertical_pitch p,
      tube_diameter p / 2)"
  unfolding generate_return_geometry_def Let_def
  by (simp add: grid_index [OF assms])

lemma side_tubes_length:
  "length (tubes (generate_header_geometry p)) = nat (no_of_rows p) * nat (tubes_per_row p)"
  "length (tubes (generate_return_geometry p)) = nat (no_of_rows p) * nat (tubes_per_row p)"
  by (simp_all add: generate_header_geometry_def generate_return_geometry_def Let_def
      length_concat comp_def sum_list_triv)

text \<open>
  Claim C3, as the code has it. Row \<open>r\<close> of the return-end view is the mirror image of row
  \<open>r\<close> of the header view inside the tube grid: its tube X-centre is
  \<open>grid_x + grid_w - (row_pitch/2 + r * row_pitch)\<close>, that is \<open>grid_x + grid_w\<close> minus
  the distance of the header view's tube from the left edge of the header view's grid
  (\<open>header_view_X(r) - grid_x\<close>), not minus \<open>header_view_X(r)\<close> itself. The tubes of row
  \<open>r\<close> are the entries \<open>r * tubes_per_row + t\<close> of the tube list.
\<close>

theorem return_tube_x_mirror:
  assumes "0 \<le> r" "r < no_of_rows p" "0 \<le> t" "t < tubes_per_row p"
  shows "circle_x (tubes (generate_header_geometry p) ! nat (r * tubes_per_row p + t))
           = rect_x (inner_rect (generate_header_geometry p))
             + row_pitch p / 2 + of_int r * row_pitch p
       \<and> circle_x (tubes (generate_return_geometry p) ! nat (r * tubes_per_row p + t))
           = rect_x (inner_rect (generate_return_geometry p))
             + rect_w (inner_rect (generate_return_geometry p))
             - (row_pitch p / 2 + of_int r * row_pitch p)
       \<and> circle_x (tubes (generate_return_geometry p) ! nat (r * tubes_per_row p + t))
           = rect_x (inner_rect (generate_return_geometry p))
             + rect_w (inner_rect (generate_return_geometry p))
             - (circle_x (tubes (generate_header_geometry p) ! nat (r * tubes_per_row p + t))
                - rect_x (inner_rect (generate_header_geometry p)))"
  by (simp add: header_tubes_nth [OF assms] return_tubes_nth [OF assms]
      header_inner_rect return_inner_rect)

text \<open>Row 1, tube 2 of the default coil.\<close>

theorem return_tube_x_mirror_witness:
  "circle_x (tubes (generate_header_geometry default_params) ! 37) = 1081 / 10
   \<and> circle_x (tubes (generate_return_geometry default_params) ! 37) = 2119 / 10"
  using return_tube_x_mirror [of 1 default_params 2]
  by (simp add: header_inner_rect return_inner_rect row_pitch_def default_params_def)

text \<open>
  With the default parameters both views have the same grid, from 56.2 to 263.8; the first
  return-view tube is at 246.5, while \<open>grid_x + grid_w - header_view_X(0)\<close> is 190.3.
\<close>

theorem return_tube_x_mirror_counterexample:
  "circle_x (tubes (generate_return_geometry default_params) ! 0) = 493 / 2
   \<and> rect_x (inner_rect (generate_return_geometry default_params))
       + rect_w (inner_rect (generate_return_geometry default_params))
       - circle_x (tubes (generate_header_geometry default_params) ! 0) = 1903 / 10
   \<and> inner_rect (generate_header_geometry default_params)
       = inner_rect (generate_return_geometry default_params)
   \<and> circle_x (tubes (generate_return_geometry default_params) ! 0)
       \<noteq> rect_x (inner_rect (generate_return_geometry default_params))
         + rect_w (inner_rect (generate_return_geometry default_params))
         - circle_x (tubes (generate_header_geometry default_params) ! 0)"
proof -
  have r: "(0::int) \<le> 0" "(0::int) < no_of_rows default_params"
          "(0::int) < tubes_per_row default_params"
    by (simp_all add: default_params_def)
  have h: "tubes (generate_header_geometry default_params) ! 0 = (147 / 2, 1515 / 34, 127 / 16)"
    using header_tubes_nth [OF r(1) r(2) r(1) r(3)]
    by (simp add: row_pitch_def vertical_pitch_def default_params_def)
  have t: "tubes (generate_return_geometry default_params) ! 0 = (493 / 2, 1515 / 34, 127 / 16)"
    using return_tubes_nth [OF r(1) r(2) r(1) r(3)]
    by (simp add: row_pitch_def vertical_pitch_def default_params_def)
  show ?thesis
    unfolding h t
    by (simp add: header_inner_rect return_inner_rect row_pitch_def default_params_def)
qed

text \<open>
  Claim C4. In both side views the tubes of row \<open>r\<close> start at \<open>grid_y + VP/4\<close> when \<open>r\<close> is
  even and at \<open>grid_y + 3 VP/4\<close> when it is odd, tube \<open>t\<close> of the row lies \<open>t * VP\<close>
  above the start, and an odd row is exactly \<open>VP/2\<close> above an even one.
\<close>

theorem side_view_stagger:
  assumes "0 \<le> r" "r < no_of_rows p" "0 \<le> t" "t < tubes_per_row p"
  shows "circle_y (tubes (generate_header_geometry p) ! nat (r * tubes_per_row p + t))
           = rect_y (inner_rect (generate_header_geometry p))
             + (if r mod 2 = 0 then vertical_pitch p / 4 else 3 * vertical_pitch p / 4)
             + of_int t * vertical_pitch p
       \<and> circle_y (tubes (generate_return_geometry p) ! nat (r * tubes_per_row p + t))
           = rect_y (inner_rect (generate_return_geometry p))
             + (if r mod 2 = 0 then vertical_pitch p / 4 else 3 * vertical_pitch p / 4)
             + of_int t * vertical_pitch p
       \<and> (0 \<le> r' \<and> r' < no_of_rows p \<and> r mod 2 = 0 \<and> r' mod 2 = 1 \<longrightarrow>
            circle_y (tubes (generate_header_geometry p) ! nat (r' * tubes_per_row p + t))
              - circle_y (tubes (generate_header_geometry p) ! nat (r * tubes_per_row p + t))
              = vertical_pitch p / 2
          \<and> circle_y (tubes (generate_return_geometry p) ! nat (r' * tubes_per_row p + t))
              - circle_y (tubes (generate_return_geometry p) ! nat (r * tubes_per_row p + t))
              = vertical_pitch p / 2)"
proof -
  have a: "circle_y (tubes (generate_header_geometry p) ! nat (r * tubes_per_row p + t))
           = rect_y (inner_rect (generate_header_geometry p))
             + (if r mod 2 = 0 then vertical_pitch p / 4 else 3 * vertical_pitch p / 4)
             + of_int t * vertical_pitch p"
    by (simp add: header_tubes_nth [OF assms] header_inner_rect)
  have b: "circle_y (tubes (generate_return_geometry p) ! nat (r * tubes_per_row p + t))
           = rect_y (inner_rect (generate_return_geometry p))
             + (if r mod 2 = 0 then vertical_pitch p / 4 else 3 * vertical_pitch p / 4)
             + of_int t * vertical_pitch p"
    by (simp add: return_tubes_nth [OF assms] return_inner_rect)
  have c: "circle_y (tubes (generate_header_geometry p) ! nat (r' * tubes_per_row p + t))
              - circle_y (tubes (generate_header_geometry p) ! nat (r * tubes_per_row p + t))
              = vertical_pitch p / 2
          \<and> circle_y (tubes (generate_return_geometry p) ! nat (r' * tubes_per_row p + t))
              - circle_y (tubes (generate_return_geometry p) ! nat (r * tubes_per_row p + t))
              = vertical_pitch p / 2"
    if r': "0 \<le> r'" "r' < no_of_rows p" and par: "r mod 2 = 0" "r' mod 2 = 1"
    using par
    by (simp add: header_tubes_nth [OF assms] return_tubes_nth [OF assms]
        header_tubes_nth [OF r' assms(3,4)] return_tubes_nth [OF r' assms(3,4)])
  have c': "0 \<le> r' \<and> r' < no_of_rows p \<and> r mod 2 = 0 \<and> r' mod 2 = 1 \<longrightarrow>
            circle_y (tubes (generate_header_geometry p) ! nat (r' * tubes_per_row p + t))
              - circle_y (tubes (generate_header_geometry p) ! nat (r * tubes_per_row p + t))
              = vertical_pitch p / 2
          \<and> circle_y (tubes (generate_return_geometry p) ! nat (r' * tubes_per_row p + t))
              - circle_y (tubes (generate_return_geometry p) ! nat (r * tubes_per_row p + t))
              = vertical_pitch p / 2"
  proof (intro impI, elim conjE)
    assume "0 \<le> r'" "r' < no_of_rows p" "r mod 2 = 0" "r' mod 2 = 1"
    then show "circle_y (tubes (generate_header_geometry p) ! nat (r' * tubes_per_row p + t))
              - circle_y (tubes (generate_header_geometry p) ! nat (r * tubes_per_row p + t))
              = vertical_pitch p / 2
          \<and> circle_y (tubes (generate_return_geometry p) ! nat (r' * tubes_per_row p + t))
              - circle_y (tubes (generate_return_geometry p) ! nat (r * tubes_per_row p + t))
              = vertical_pitch p / 2"
      by (rule c)
  qed
  from a b c' show ?thesis by (intro conjI)
qed

text \<open>Rows 0 and 1, tube 2 of the default coil.\<close>

theorem side_view_stagger_witness:
  "circle_y (tubes (generate_header_geometry default_params) ! 2) = 4115 / 34
   \<and> circle_y (tubes (generate_return_geometry default_params) ! 37)
      - circle_y (tubes (generate_return_geometry default_params) ! 2) = 325 / 17
   \<and> vertical_pitch default_params / 2 = 325 / 17"
  using side_view_stagger [of 0 default_params 2 1]
  by (simp add: header_inner_rect return_inner_rect vertical_pitch_def default_params_def)

text \<open>
  Claim C9. With more than one tube per row, the height of the outer rectangle of both side
  views, \<open>tubes_per_row * vertical_pitch + top_plate + bottom_plate\<close>, is
  \<open>fin_height + vertical_pitch\<close>: one pitch more than the fin height, and different from
  the front view's \<open>casing_height\<close> unless the pitch equals \<open>casing_bottom + casing_top\<close>.
\<close>

theorem side_view_height:
  assumes "tubes_per_row p > 1"
  shows "rect_h (outer_rect (generate_header_geometry p))
           = of_int (tubes_per_row p) * vertical_pitch p + top_plate p + bottom_plate p
       \<and> rect_h (outer_rect (generate_return_geometry p))
           = rect_h (outer_rect (generate_header_geometry p))
       \<and> rect_h (outer_rect (generate_header_geometry p)) = fin_height p + vertical_pitch p
       \<and> rect_h (outer_rect (generate_header_geometry p)) - fin_height p = vertical_pitch p
       \<and> casing_height p = casing_bottom p + fin_height p + casing_top p
       \<and> (vertical_pitch p \<noteq> casing_bottom p + casing_top p \<longrightarrow>
            rect_h (outer_rect (generate_header_geometry p)) \<noteq> casing_height p)"
proof -
  have n: "real_of_int (tubes_per_row p) - 1 \<noteq> 0" using assms by simp
  have vp: "vertical_pitch p * (real_of_int (tubes_per_row p) - 1)
              = fin_height p - top_plate p - bottom_plate p"
    using assms n by (simp add: vertical_pitch_def)
  have h: "of_int (tubes_per_row p) * vertical_pitch p + top_plate p + bottom_plate p
             = fin_height p + vertical_pitch p"
    using vp by (simp add: algebra_simps)
  show ?thesis
    using h by (simp add: header_outer_rect return_outer_rect casing_height_def)
qed

text \<open>The default coil: 35 tubes per row, a side-view height of 1400 + 650/17.\<close>

theorem side_view_height_witness:
  "rect_h (outer_rect (generate_header_geometry default_params)) = 1400 + 650 / 17
   \<and> rect_h (outer_rect (generate_header_geometry default_params))
        \<noteq> casing_height default_params"
  using side_view_height [of default_params]
  by (simp add: vertical_pitch_def casing_height_def default_params_def)

section \<open>Top view\<close>

lemma py_range_step:
  "i < stop \<Longrightarrow> py_range i stop 2 = i # py_range (i + 2) stop 2"
  by (subst py_range.simps) simp

lemma py_range_stop:
  "\<not> i < stop \<Longrightarrow> py_range i stop step = []"
  by (subst py_range.simps) simp

lemma py_range_two_length:
  "length (py_range i stop 2) = nat ((stop - i + 1) div 2)"
proof (induction i stop "2::int" rule: py_range.induct)
  case (1 i stop)
  show ?case
  proof (cases "i < stop")
    case True
    have "length (py_range i stop 2) = Suc (length (py_range (i + 2) stop 2))"
      by (simp only: py_range_step [OF True] list.size length_Cons)
    also have "\<dots> = Suc (nat ((stop - (i + 2) + 1) div 2))"
      using 1 True by (simp)
    also have "\<dots> = nat ((stop - i + 1) div 2)"
      using True by linarith
    finally show ?thesis .
  next
    case False
    then show ?thesis by (simp add: py_range_stop)
  qed
qed

lemma py_range_two_nth:
  "k < length (py_range i stop 2) \<Longrightarrow> py_range i stop 2 ! k = i + 2 * int k"
proof (induction i stop "2::int" arbitrary: k rule: py_range.induct)
  case (1 i stop)
  show ?case
  proof (cases "i < stop")
    case True
    note lt = True
    show ?thesis
    proof (cases k)
      case 0
      then show ?thesis by (simp only: py_range_step [OF lt]) simp
    next
      case (Suc j)
      have "j < length (py_range (i + 2) stop 2)"
        using "1.prems" Suc by (simp only: py_range_step [OF lt]) simp
      then have "py_range (i + 2) stop 2 ! j = i + 2 + 2 * int j"
        using "1.hyps" lt by (simp)
      then show ?thesis using Suc by (simp only: py_range_step [OF lt]) simp
    qed
  next
    case False
    then show ?thesis using "1.prems" by (simp add: py_range_stop)
  qed
qed

lemma top_bend_arcs:
  "bend_arcs (generate_top_geometry p) =
     map (\<lambda>row. (casing_width p + casing_right p,
                  ((header_depth p - coil_depth p) / 2 + row_pitch p / 2 + of_int row * row_pitch p
                   + ((header_depth p - coil_depth p) / 2 + row_pitch p / 2
                      + of_int (row + 1) * row_pitch p)) / 2,
                  (((header_depth p - coil_depth p) / 2 + row_pitch p / 2
                      + of_int (row + 1) * row_pitch p)
                   - ((header_depth p - coil_depth p) / 2 + row_pitch p / 2
                      + of_int row * row_pitch p)) / 2,
                  - 90, 180))
         (py_range 0 (no_of_rows p - 1) 2)"
  by (simp add: generate_top_geometry_def Let_def case_prod_unfold)

lemma top_margin: "margin (generate_top_geometry p) = (header_depth p - coil_depth p) / 2"
  by (simp add: generate_top_geometry_def Let_def case_prod_unfold)

text \<open>
  Claim C5, as the code has it. The arcs pair rows 0-1, 2-3, ... two rows at a time: arc
  \<open>k\<close> is the semicircle (start -90, span 180) at \<open>x = casing_width + casing_right\<close>,
  centred between the centre lines of rows \<open>2k\<close> and \<open>2k + 1\<close>, with radius half the row
  pitch; row \<open>2k + 1\<close> exists, so an odd last row has no arc. The number of arcs is
  \<open>floor(no_of_rows / 2)\<close> for every non-negative row count, and 0 for a negative one.
\<close>

theorem bend_arcs_pairing:
  "length (bend_arcs (generate_top_geometry p)) = nat (no_of_rows p div 2)
   \<and> (0 \<le> no_of_rows p \<longrightarrow>
        int (length (bend_arcs (generate_top_geometry p))) = no_of_rows p div 2)
   \<and> (no_of_rows p < 0 \<longrightarrow> bend_arcs (generate_top_geometry p) = [])
   \<and> (k < nat (no_of_rows p div 2) \<longrightarrow>
        bend_arcs (generate_top_geometry p) ! k =
          (casing_width p + casing_right p,
           ((margin (generate_top_geometry p) + row_pitch p / 2
               + of_int (2 * int k) * row_pitch p)
            + (margin (generate_top_geometry p) + row_pitch p / 2
               + of_int (2 * int k + 1) * row_pitch p)) / 2,
           row_pitch p / 2, - 90, 180)
        \<and> 2 * int k + 1 < no_of_rows p)"
proof -
  have len: "length (bend_arcs (generate_top_geometry p)) = nat (no_of_rows p div 2)"
    by (simp add: top_bend_arcs py_range_two_length)
  have nonneg: "0 \<le> no_of_rows p \<longrightarrow>
        int (length (bend_arcs (generate_top_geometry p))) = no_of_rows p div 2"
    using len by simp
  have neg: "no_of_rows p < 0 \<longrightarrow> bend_arcs (generate_top_geometry p) = []"
  proof
    assume "no_of_rows p < 0"
    then have "nat (no_of_rows p div 2) = 0" by simp
    with len show "bend_arcs (generate_top_geometry p) = []" by simp
  qed
  have nth: "k < nat (no_of_rows p div 2) \<longrightarrow>
        bend_arcs (generate_top_geometry p) ! k =
          (casing_width p + casing_right p,
           ((margin (generate_top_geometry p) + row_pitch p / 2
               + of_int (2 * int k) * row_pitch p)
            + (margin (generate_top_geometry p) + row_pitch p / 2
               + of_int (2 * int k + 1) * row_pitch p)) / 2,
           row_pitch p / 2, - 90, 180)
        \<and> 2 * int k + 1 < no_of_rows p"
  proof
    assume k: "k < nat (no_of_rows p div 2)"
    then have kl: "k < length (py_range 0 (no_of_rows p - 1) 2)"
      by (simp add: py_range_two_length)
    have row: "py_range 0 (no_of_rows p - 1) 2 ! k = 2 * int k"
      using py_range_two_nth [OF kl] by simp
    have "2 * int k + 1 < no_of_rows p" using k by linarith
    moreover have "bend_arcs (generate_top_geometry p) ! k =
          (casing_width p + casing_right p,
           ((margin (generate_top_geometry p) + row_pitch p / 2
               + of_int (2 * int k) * row_pitch p)
            + (margin (generate_top_geometry p) + row_pitch p / 2
               + of_int (2 * int k + 1) * row_pitch p)) / 2,
           row_pitch p / 2, - 90, 180)"
      using kl by (simp add: top_bend_arcs top_margin row algebra_simps)
    ultimately show "bend_arcs (generate_top_geometry p) ! k =
          (casing_width p + casing_right p,
           ((margin (generate_top_geometry p) + row_pitch p / 2
               + of_int (2 * int k) * row_pitch p)
            + (margin (generate_top_geometry p) + row_pitch p / 2
               + of_int (2 * int k + 1) * row_pitch p)) / 2,
           row_pitch p / 2, - 90, 180)
        \<and> 2 * int k + 1 < no_of_rows p" by simp
  qed
  from len nonneg neg nth show ?thesis by (intro conjI)
qed

text \<open>Six rows give three arcs, five rows give two.\<close>

theorem bend_arcs_pairing_witness:
  "length (bend_arcs (generate_top_geometry default_params)) = 3
   \<and> bend_arcs (generate_top_geometry default_params) ! 2 = (1495, 1146 / 5, 173 / 10, - 90, 180)
   \<and> length (bend_arcs (generate_top_geometry (default_params\<lparr>no_of_rows := 5\<rparr>))) = 2"
  using bend_arcs_pairing [of default_params 2]
    bend_arcs_pairing [of "default_params\<lparr>no_of_rows := 5\<rparr>" 0]
  by (simp add: top_margin row_pitch_def casing_width_def default_params_def)

text \<open>A row count of -2 gives no arc, and \<open>floor(-2 / 2) = -1\<close>.\<close>

theorem bend_arcs_count_counterexample:
  "length (bend_arcs (generate_top_geometry (default_params\<lparr>no_of_rows := - 2\<rparr>))) = 0
   \<and> no_of_rows (default_params\<lparr>no_of_rows := - 2\<rparr>) div 2 = - 1
   \<and> int (length (bend_arcs (generate_top_geometry (default_params\<lparr>no_of_rows := - 2\<rparr>))))
       \<noteq> no_of_rows (default_params\<lparr>no_of_rows := - 2\<rparr>) div 2"
  by (simp add: top_bend_arcs py_range_two_length)

subsection \<open>Connection pipes\<close>

lemma casing_width_side [simp]:
  "casing_width (p\<lparr>connection_side := s\<rparr>) = casing_width p"
  by (simp add: casing_width_def)

lemma row_pitch_side [simp]:
  "row_pitch (p\<lparr>connection_side := s\<rparr>) = row_pitch p"
  by (simp add: row_pitch_def)

lemma top_connection_lhs:
  assumes "connection_side p = ''LHS''"
  shows "(connection_pipes (generate_top_geometry p), pipe_circles (generate_top_geometry p),
          pipe_stubs (generate_top_geometry p)) =
         lhs_connection (connection_extension p)
           (min (top_header_block_length p) (casing_width p))
           (top_pipe_fitting_outer_offset p) (top_pipe_fitting_inner_offset p)
           (top_pipe_stub_center_offset p) (top_pipe_stub_spacing p)
           (tube_diameter p / 2)
           (header_depth p / 2 - connection_vertical_gap p / 2)
           (header_depth p / 2 + connection_vertical_gap p / 2)"
  using assms by (simp add: generate_top_geometry_def Let_def case_prod_unfold)

lemma top_connection_rhs:
  assumes "connection_side p \<noteq> ''LHS''"
  shows "(connection_pipes (generate_top_geometry p), pipe_circles (generate_top_geometry p),
          pipe_stubs (generate_top_geometry p)) =
         rhs_connection (casing_width p) (connection_extension p)
           (min (top_header_block_length p) (casing_width p))
           (top_pipe_fitting_outer_offset p) (top_pipe_fitting_inner_offset p)
           (tube_diameter p / 2)
           (header_depth p / 2 - connection_vertical_gap p / 2)
           (header_depth p / 2 + connection_vertical_gap p / 2)"
  using assms by (simp add: generate_top_geometry_def Let_def case_prod_unfold)

lemma top_pipe_ext: "pipe_ext (generate_top_geometry p) = connection_extension p"
  by (simp add: generate_top_geometry_def Let_def case_prod_unfold)

lemma top_header_block_len:
  "header_block_len (generate_top_geometry p) = min (top_header_block_length p) (casing_width p)"
  by (simp add: generate_top_geometry_def Let_def case_prod_unfold)

lemma top_outer_rect:
  "outer_rect (generate_top_geometry p) = (0, 0, casing_width p, header_depth p)"
  by (simp add: generate_top_geometry_def Let_def case_prod_unfold)

lemma rhs_label_pos:
  "connection_side p \<noteq> ''LHS'' \<Longrightarrow>
   map label_pos (connection_pipes (generate_top_geometry p)) =
     [(casing_width p + connection_extension p + 15,
       header_depth p / 2 - connection_vertical_gap p / 2),
      (casing_width p + connection_extension p + 15,
       header_depth p / 2 + connection_vertical_gap p / 2)]"
  using top_connection_rhs [of p] by (simp add: rhs_connection_def)

lemma lhs_label_pos:
  "connection_side p = ''LHS'' \<Longrightarrow>
   map label_pos (connection_pipes (generate_top_geometry p)) =
     [(- connection_extension p - 20, header_depth p / 2 - connection_vertical_gap p / 2),
      (- connection_extension p - 25, header_depth p / 2 + connection_vertical_gap p / 2)]"
  using top_connection_lhs [of p] by (simp add: lhs_connection_def)

lemma rhs_pipe_stubs:
  "connection_side p \<noteq> ''LHS'' \<Longrightarrow> pipe_stubs (generate_top_geometry p) = []"
  using top_connection_rhs [of p] by (simp add: rhs_connection_def)

lemma lhs_pipe_stubs_length:
  "connection_side p = ''LHS'' \<Longrightarrow> length (pipe_stubs (generate_top_geometry p)) = 4"
  using top_connection_lhs [of p] by (simp add: lhs_connection_def)

lemma validate_parameters_side:
  "validate_parameters (p\<lparr>connection_side := s\<rparr>) = validate_parameters p"
  by (simp add: validate_parameters_eq positive_fields_def count_fields_def)

lemma validate_parameters_messages:
  "set (validate_parameters p) \<subseteq>
     set (map (\<lambda>(name, getattr). name @ '' must be positive'') positive_fields)
     \<union> set (map (\<lambda>(name, getattr). name @ '' must be >= 1'') count_fields)
     \<union> {plate_message}"
  by (auto simp: validate_parameters_eq)

lemma messages_without_side:
  "\<forall>m \<in> set (map (\<lambda>(name, getattr). name @ '' must be positive'') positive_fields)
        \<union> set (map (\<lambda>(name, getattr). name @ '' must be >= 1'') count_fields)
        \<union> {plate_message}.
     \<not> sublist ''connection_side'' m"
  by (simp add: positive_fields_def count_fields_def plate_message_def sublist_Cons_right)

text \<open>
  Claim C2, as the code has it. For two records that differ only in \<open>connection_side\<close>
  (\<open>LHS\<close> and \<open>RHS\<close>), the two pipe lines and the four fitting circles of the \<open>RHS\<close>
  record are the mirror images, about the vertical centre line \<open>x = casing_width / 2\<close>, of
  those of the \<open>LHS\<close> record (each line with its end points listed in the other order).
  The labels keep their text and their height, and are placed further out on their side:
  15 beyond the pipe tip for both labels on the right, 20 (IN) and 25 (OUT) beyond it on
  the left, so the label positions are not mirror images.
\<close>

theorem connection_side_mirror:
  "map line (connection_pipes (generate_top_geometry (p\<lparr>connection_side := ''RHS''\<rparr>)))
     = map (\<lambda>c. swap_ends (mirror_segment (casing_width p) (line c)))
           (connection_pipes (generate_top_geometry (p\<lparr>connection_side := ''LHS''\<rparr>)))
   \<and> pipe_circles (generate_top_geometry (p\<lparr>connection_side := ''RHS''\<rparr>))
     = map (mirror_circle (casing_width p))
           (pipe_circles (generate_top_geometry (p\<lparr>connection_side := ''LHS''\<rparr>)))
   \<and> map label (connection_pipes (generate_top_geometry (p\<lparr>connection_side := ''RHS''\<rparr>)))
     = [''IN'', ''OUT'']
   \<and> map label (connection_pipes (generate_top_geometry (p\<lparr>connection_side := ''LHS''\<rparr>)))
     = [''IN'', ''OUT'']
   \<and> map (\<lambda>c. snd (label_pos c))
         (connection_pipes (generate_top_geometry (p\<lparr>connection_side := ''RHS''\<rparr>)))
     = map (\<lambda>c. snd (label_pos c))
         (connection_pipes (generate_top_geometry (p\<lparr>connection_side := ''LHS''\<rparr>)))
   \<and> map (\<lambda>c. fst (label_pos c))
         (connection_pipes (generate_top_geometry (p\<lparr>connection_side := ''RHS''\<rparr>)))
     = [casing_width p + connection_extension p + 15,
        casing_width p + connection_extension p + 15]
   \<and> map (\<lambda>c. fst (label_pos c))
         (connection_pipes (generate_top_geometry (p\<lparr>connection_side := ''LHS''\<rparr>)))
     = [- connection_extension p - 20, - connection_extension p - 25]"
proof -
  have l: "connection_side (p\<lparr>connection_side := ''LHS''\<rparr>) = ''LHS''" by simp
  have r: "connection_side (p\<lparr>connection_side := ''RHS''\<rparr>) \<noteq> ''LHS''" by simp
  note L = top_connection_lhs [OF l, unfolded lhs_connection_def, simplified]
  note R = top_connection_rhs [OF r, unfolded rhs_connection_def, simplified]
  show ?thesis by (simp add: L R)
qed

text \<open>
  The default coil: mirrored, the \<open>LHS\<close> labels would be at x = 1620 and 1625; the \<open>RHS\<close>
  labels are both at 1615. The \<open>RHS\<close> record has no stub line, the \<open>LHS\<close> record four.
\<close>

theorem connection_side_mirror_counterexample:
  "map label_pos (connection_pipes
       (generate_top_geometry (default_params\<lparr>connection_side := ''RHS''\<rparr>)))
     = [(1615, 245 / 2), (1615, 395 / 2)]
   \<and> map (mirror_point (casing_width default_params))
         (map label_pos (connection_pipes
            (generate_top_geometry (default_params\<lparr>connection_side := ''LHS''\<rparr>))))
     = [(1620, 245 / 2), (1625, 395 / 2)]
   \<and> map label_pos (connection_pipes
       (generate_top_geometry (default_params\<lparr>connection_side := ''RHS''\<rparr>)))
     \<noteq> map (mirror_point (casing_width default_params))
         (map label_pos (connection_pipes
            (generate_top_geometry (default_params\<lparr>connection_side := ''LHS''\<rparr>))))
   \<and> pipe_stubs (generate_top_geometry (default_params\<lparr>connection_side := ''RHS''\<rparr>)) = []
   \<and> length (pipe_stubs
         (generate_top_geometry (default_params\<lparr>connection_side := ''LHS''\<rparr>))) = 4"
  by (simp add: rhs_label_pos lhs_label_pos rhs_pipe_stubs lhs_pipe_stubs_length
      mirror_point_def casing_width_def default_params_def)

text \<open>
  Claim C10. Any \<open>connection_side\<close> other than \<open>"LHS"\<close> takes the \<open>else\<close> branch: the top
  view is the one of the same record with side \<open>"RHS"\<close> (but for the parameter record it
  carries), with both pipes running from \<open>casing_width - header_block_len\<close> to the right of
  the casing. Validation does not read the field: its result is that of the \<open>"RHS"\<close>
  record, and none of its messages mentions \<open>connection_side\<close>.
\<close>

theorem non_lhs_side_renders_rhs:
  assumes "connection_side p \<noteq> ''LHS''"
  shows "generate_top_geometry p
           = (generate_top_geometry (p\<lparr>connection_side := ''RHS''\<rparr>))\<lparr>params := p\<rparr>
       \<and> map line (connection_pipes (generate_top_geometry p))
           = [(casing_width p - header_block_len (generate_top_geometry p),
               header_depth p / 2 - connection_vertical_gap p / 2,
               casing_width p + connection_extension p,
               header_depth p / 2 - connection_vertical_gap p / 2),
              (casing_width p - header_block_len (generate_top_geometry p),
               header_depth p / 2 + connection_vertical_gap p / 2,
               casing_width p + connection_extension p,
               header_depth p / 2 + connection_vertical_gap p / 2)]
       \<and> validate_parameters p = validate_parameters (p\<lparr>connection_side := ''RHS''\<rparr>)
       \<and> (\<forall>m \<in> set (validate_parameters p). \<not> sublist ''connection_side'' m)"
proof -
  have a: "generate_top_geometry p
           = (generate_top_geometry (p\<lparr>connection_side := ''RHS''\<rparr>))\<lparr>params := p\<rparr>"
    using assms by (simp add: generate_top_geometry_def Let_def case_prod_unfold)
  have b: "map line (connection_pipes (generate_top_geometry p))
           = [(casing_width p - header_block_len (generate_top_geometry p),
               header_depth p / 2 - connection_vertical_gap p / 2,
               casing_width p + connection_extension p,
               header_depth p / 2 - connection_vertical_gap p / 2),
              (casing_width p - header_block_len (generate_top_geometry p),
               header_depth p / 2 + connection_vertical_gap p / 2,
               casing_width p + connection_extension p,
               header_depth p / 2 + connection_vertical_gap p / 2)]"
    using top_connection_rhs [OF assms]
    by (simp add: rhs_connection_def top_header_block_len)
  have c: "validate_parameters p = validate_parameters (p\<lparr>connection_side := ''RHS''\<rparr>)"
    by (simp add: validate_parameters_side)
  have d: "\<forall>m \<in> set (validate_parameters p). \<not> sublist ''connection_side'' m"
    using validate_parameters_messages [of p] messages_without_side by blast
  from a b c d show ?thesis by (intro conjI)
qed

text \<open>The side \<open>"TOP"\<close>, outside the documented domain, is accepted and drawn on the right.\<close>

theorem non_lhs_side_renders_rhs_witness:
  "map line (connection_pipes
      (generate_top_geometry (default_params\<lparr>connection_side := ''TOP''\<rparr>)))
     = [(1250, 245 / 2, 1600, 245 / 2), (1250, 395 / 2, 1600, 395 / 2)]
   \<and> validate_parameters (default_params\<lparr>connection_side := ''TOP''\<rparr>) = []"
proof -
  have h: "connection_side (default_params\<lparr>connection_side := ''TOP''\<rparr>) \<noteq> ''LHS''"
    by simp
  note w = non_lhs_side_renders_rhs [OF h]
  have "map line (connection_pipes
      (generate_top_geometry (default_params\<lparr>connection_side := ''TOP''\<rparr>)))
     = [(1250, 245 / 2, 1600, 245 / 2), (1250, 395 / 2, 1600, 395 / 2)]"
    using w [THEN conjunct2, THEN conjunct1]
    by (simp add: top_header_block_len casing_width_def default_params_def)
  moreover have "validate_parameters (default_params\<lparr>connection_side := ''TOP''\<rparr>) = []"
    using w [THEN conjunct2, THEN conjunct2, THEN conjunct1]
    by (simp add: validate_parameters_side validate_default)
  ultimately show ?thesis by simp
qed

section \<open>Arrowheads\<close>

lemma leg_length: "sqrt (9 * (cos x)\<^sup>2 + 9 * (sin x)\<^sup>2) = 3"
proof -
  have "9 * (cos x)\<^sup>2 + 9 * (sin x)\<^sup>2 = 9 * ((cos x)\<^sup>2 + (sin x)\<^sup>2)"
    by (simp only: distrib_left)
  also have "\<dots> = 9"
    by (simp only: sin_cos_squared_add2 mult_1_right)
  finally have "9 * (cos x)\<^sup>2 + 9 * (sin x)\<^sup>2 = 9" .
  moreover have "sqrt (9::real) = 3"
    by (rule real_sqrt_unique) simp_all
  ultimately show ?thesis by (simp only:)
qed

text \<open>
  Claim C6. For every tip \<open>(tx, ty)\<close> and every direction angle, \<open>arrowhead_lines\<close> returns
  exactly two segments. Both start at the tip; the first ends 3 away in the direction of
  the reversed angle plus 25 degrees, the second 3 away in the direction of the reversed
  angle minus 25 degrees, so both have length 3. The constants of the dimension engine are
  arrow length 3, arrow half-angle 25, extension gap 2 and extension overrun 3.
\<close>

theorem arrowhead_lines_geometry:
  "arrowhead_lines tx ty a_deg =
     [(tx, ty, tx + 3 * cos (radians (a_deg + 180 + 25)),
               ty + 3 * sin (radians (a_deg + 180 + 25))),
      (tx, ty, tx + 3 * cos (radians (a_deg + 180 - 25)),
               ty + 3 * sin (radians (a_deg + 180 - 25)))]
   \<and> map segment_length (arrowhead_lines tx ty a_deg) = [3, 3]
   \<and> ARROW_LEN = 3 \<and> ARROW_ANGLE = 25 \<and> EXT_GAP = 2 \<and> EXT_OVER = 3"
proof -
  have eq: "arrowhead_lines tx ty a_deg =
     [(tx, ty, tx + 3 * cos (radians (a_deg + 180 + 25)),
               ty + 3 * sin (radians (a_deg + 180 + 25))),
      (tx, ty, tx + 3 * cos (radians (a_deg + 180 - 25)),
               ty + 3 * sin (radians (a_deg + 180 - 25)))]"
  proof -
    have p: "radians (a_deg + 180 + 25) = (radians a_deg + radians 25) + pi"
      by (simp add: radians_def field_simps)
    have m: "radians (a_deg + 180 - 25) = (radians a_deg - radians 25) + pi"
      by (simp add: radians_def field_simps)
    show ?thesis
      unfolding p m
      by (simp add: arrowhead_lines_def Let_def ARROW_LEN_def ARROW_ANGLE_def)
  qed
  have len: "map segment_length (arrowhead_lines tx ty a_deg) = [3, 3]"
    unfolding eq by (simp add: leg_length)
  show ?thesis
    using eq len by (simp add: ARROW_LEN_def ARROW_ANGLE_def EXT_GAP_def EXT_OVER_def)
qed

section \<open>Sheet layout\<close>

lemma front_geometry_error:
  "fpi p = 0 \<Longrightarrow> generate_front_geometry p = Inl ZeroDivisionError"
  by (simp add: generate_front_geometry_def Let_def)

lemma front_geometry_ok:
  assumes "fpi p \<noteq> 0"
  obtains F where "generate_front_geometry p = Inr F"
    and "outer_rect F = (0, 0, casing_width p, casing_height p)"
  using assms by (simp add: generate_front_geometry_def Let_def)

lemma generate_layout_error:
  "fpi p = 0 \<Longrightarrow> generate_layout p = Inl ZeroDivisionError"
  by (simp add: generate_layout_def front_geometry_error)

lemma generate_layout_ok:
  assumes "generate_front_geometry p = Inr F"
    and "outer_rect F = (0, 0, casing_width p, casing_height p)"
  shows "generate_layout p =
     Inr \<lparr> views =
            [\<lparr> view_label = ''TOP'', offset_x = header_depth p + VIEW_GAP, offset_y = 0,
               geometry = TopGeometry (generate_top_geometry p) \<rparr>,
             \<lparr> view_label = ''HEADER SIDE'', offset_x = 0,
               offset_y = header_depth p + VIEW_GAP,
               geometry = SideGeometry (generate_header_geometry p) \<rparr>,
             \<lparr> view_label = ''FRONT'', offset_x = header_depth p + VIEW_GAP,
               offset_y = header_depth p + VIEW_GAP, geometry = FrontGeometry F \<rparr>,
             \<lparr> view_label = ''RETURN END SIDE'',
               offset_x = header_depth p + VIEW_GAP + casing_width p + VIEW_GAP,
               offset_y = header_depth p + VIEW_GAP,
               geometry = SideGeometry (generate_return_geometry p) \<rparr>],
          notes_offset =
            (0, header_depth p + VIEW_GAP
                + max (max (casing_height p)
                           (of_int (tubes_per_row p) * vertical_pitch p + top_plate p
                            + bottom_plate p))
                      (of_int (tubes_per_row p) * vertical_pitch p + top_plate p
                       + bottom_plate p)
                + VIEW_GAP / 2),
          title_block_offset =
            (header_depth p + VIEW_GAP + casing_width p + VIEW_GAP,
             header_depth p + VIEW_GAP
                + max (max (casing_height p)
                           (of_int (tubes_per_row p) * vertical_pitch p + top_plate p
                            + bottom_plate p))
                      (of_int (tubes_per_row p) * vertical_pitch p + top_plate p
                       + bottom_plate p)
                + VIEW_GAP / 2) \<rparr>"
  using assms
  by (simp add: generate_layout_def Let_def header_outer_rect return_outer_rect
      top_outer_rect)

text \<open>
  Claim C7, as the code has it. For every parameter record with \<open>fpi \<noteq> 0\<close>,
  \<open>generate_layout\<close> returns a layout of the four views TOP, HEADER SIDE, FRONT and RETURN
  END SIDE, placed as follows: the header-side view at x = 0, the front view at the
  header view's width plus the gap, the return-end view at the front view's x plus the
  front view's width plus the gap, all three at y = the top view's height plus the gap;
  the top view at the front view's x and y = 0; the notes at the header view's x and the
  bottom row's y plus the largest of the three bottom-row heights plus half the gap; the
  title block at the return view's x and the same y. The gap is 80.
\<close>

theorem generate_layout_placement:
  assumes "fpi p \<noteq> 0"
  shows "case generate_layout p of
           Inl e \<Rightarrow> False
         | Inr L \<Rightarrow>
            (let top = views L ! 0; header = views L ! 1;
                 front = views L ! 2; return = views L ! 3;
                 width = (\<lambda>v. rect_w (geometry_outer_rect (geometry v)));
                 height = (\<lambda>v. rect_h (geometry_outer_rect (geometry v)))
             in length (views L) = 4
              \<and> map view_label (views L) = [''TOP'', ''HEADER SIDE'', ''FRONT'', ''RETURN END SIDE'']
              \<and> geometry top = TopGeometry (generate_top_geometry p)
              \<and> geometry header = SideGeometry (generate_header_geometry p)
              \<and> Inr (geometry front) = map_sum id FrontGeometry (generate_front_geometry p)
              \<and> geometry return = SideGeometry (generate_return_geometry p)
              \<and> offset_x header = 0
              \<and> offset_x front = width header + VIEW_GAP
              \<and> offset_x return = offset_x front + width front + VIEW_GAP
              \<and> offset_y header = height top + VIEW_GAP
              \<and> offset_y front = height top + VIEW_GAP
              \<and> offset_y return = height top + VIEW_GAP
              \<and> offset_x top = offset_x front
              \<and> offset_y top = 0
              \<and> notes_offset L =
                  (offset_x header,
                   offset_y header + max (max (height front) (height header)) (height return)
                     + VIEW_GAP / 2)
              \<and> title_block_offset L = (offset_x return, snd (notes_offset L))
              \<and> VIEW_GAP = 80)"
proof -
  obtain F where F: "generate_front_geometry p = Inr F"
    "outer_rect F = (0, 0, casing_width p, casing_height p)"
    using assms by (rule front_geometry_ok)
  show ?thesis
    unfolding generate_layout_ok [OF F]
    by (simp add: Let_def F header_outer_rect return_outer_rect top_outer_rect VIEW_GAP_def)
qed

text \<open>The default coil.\<close>

theorem generate_layout_placement_witness:
  "case generate_layout default_params of
     Inl e \<Rightarrow> False
   | Inr L \<Rightarrow>
       map offset_x (views L) = [400, 0, 400, 1910]
     \<and> map offset_y (views L) = [0, 400, 400, 400]
     \<and> notes_offset L = (0, 1878 + 4 / 17)
     \<and> title_block_offset L = (1910, 1878 + 4 / 17)"
proof -
  have h: "fpi default_params \<noteq> 0" by (simp add: default_params_def)
  obtain F where F: "generate_front_geometry default_params = Inr F"
    "outer_rect F = (0, 0, casing_width default_params, casing_height default_params)"
    using h by (rule front_geometry_ok)
  show ?thesis
    using generate_layout_placement [OF h]
    unfolding generate_layout_ok [OF F]
    by (simp add: VIEW_GAP_def casing_width_def casing_height_def vertical_pitch_def
        default_params_def)
qed

text \<open>With \<open>fpi = 0\<close> the front view divides by zero and no layout is produced.\<close>

theorem generate_layout_raises_counterexample:
  "generate_layout (default_params\<lparr>fpi := 0\<rparr>) = Inl ZeroDivisionError"
  by (simp add: generate_layout_error)

subsection \<open>Bounding boxes\<close>

lemma rects_intersect_points:
  "rects_intersect a b \<longleftrightarrow> rect_points a \<inter> rect_points b \<noteq> {}"
proof (cases a, cases b)
  fix x y w h x' y' w' h'
  assume a: "a = (x, y, w, h)" and b: "b = (x', y', w', h')"
  show ?thesis
  proof
    assume "rects_intersect a b"
    then have "(max (min x (x + w)) (min x' (x' + w')), max (min y (y + h)) (min y' (y' + h')))
                 \<in> rect_points a \<inter> rect_points b"
      unfolding a b by (simp add: min_def max_def split: if_splits)
    then show "rect_points a \<inter> rect_points b \<noteq> {}" by blast
  next
    assume "rect_points a \<inter> rect_points b \<noteq> {}"
    then obtain u v where "(u, v) \<in> rect_points a" "(u, v) \<in> rect_points b" by auto
    then show "rects_intersect a b"
      unfolding a b by simp
  qed
qed

lemma validated_positive:
  assumes "validate_parameters p = []"
  shows "0 < header_depth p" "0 < casing_width p" "0 < casing_height p" "fpi p \<noteq> 0"
  using assms
  by (simp_all add: validate_parameters_eq positive_fields_def count_fields_def
      casing_width_def casing_height_def split: if_splits)

lemma layout_view_boxes:
  assumes "generate_front_geometry p = Inr F"
    and "outer_rect F = (0, 0, casing_width p, casing_height p)"
    and "generate_layout p = Inr L"
  shows "map view_box (views L) =
     [(header_depth p + 80, 0, casing_width p, header_depth p),
      (0, header_depth p + 80, header_depth p,
       of_int (tubes_per_row p) * vertical_pitch p + top_plate p + bottom_plate p),
      (header_depth p + 80, header_depth p + 80, casing_width p, casing_height p),
      (header_depth p + 80 + casing_width p + 80, header_depth p + 80, return_depth p,
       of_int (tubes_per_row p) * vertical_pitch p + top_plate p + bottom_plate p)]"
  using assms(3) unfolding generate_layout_ok [OF assms(1,2)]
  by (auto simp: view_box_def assms(2) header_outer_rect return_outer_rect top_outer_rect
      VIEW_GAP_def)

lemma layout_views_disjoint_iff:
  assumes "validate_parameters p = []" and "generate_layout p = Inr L"
  shows "boxes_disjoint (map view_box (views L)) \<longleftrightarrow> - 80 < return_depth p"
proof -
  note pos = validated_positive [OF assms(1)]
  obtain F where F: "generate_front_geometry p = Inr F"
    "outer_rect F = (0, 0, casing_width p, casing_height p)"
    using pos(4) by (rule front_geometry_ok)
  show ?thesis
    unfolding layout_view_boxes [OF F assms(2)]
    using pos(1,2,3) by (simp add: min_def max_def) (safe; linarith)
qed

text \<open>
  Claim C8 asks that for every record that passes validation no two of the four view
  boxes intersect. By \<open>layout_views_disjoint_iff\<close> this holds exactly when
  \<open>return_depth > -80\<close>; validation checks \<open>header_depth\<close> but not \<open>return_depth\<close>.
  The default coil with a return depth of -200 passes validation; its return-end view is
  placed at x = 1910 with an outer rectangle of width -200, which covers x from 1710 to
  1910 and meets the front view's box (x from 400 to 1830) in the same row, and the centre
  of the first tube of the return view's row 5 lies inside the front view's box.
\<close>

theorem layout_overlap_negative_return_depth:
  "validate_parameters (default_params\<lparr>return_depth := - 200\<rparr>) = []
   \<and> (case generate_layout (default_params\<lparr>return_depth := - 200\<rparr>) of
        Inl e \<Rightarrow> False
      | Inr L \<Rightarrow>
          map view_box (views L) =
            [(400, 0, 1430, 320), (0, 400, 320, 1400 + 650 / 17),
             (400, 400, 1430, 1430), (1910, 400, - 200, 1400 + 650 / 17)]
        \<and> rects_intersect (view_box (views L ! 2)) (view_box (views L ! 3))
        \<and> \<not> boxes_disjoint (map view_box (views L))
        \<and> (offset_x (views L ! 3) + circle_x (tubes (generate_return_geometry (default_params\<lparr>return_depth := - 200\<rparr>)) ! 175),
            offset_y (views L ! 3) + circle_y (tubes (generate_return_geometry (default_params\<lparr>return_depth := - 200\<rparr>)) ! 175))
             \<in> rect_points (view_box (views L ! 2)))"
proof -
  have v: "validate_parameters (default_params\<lparr>return_depth := - 200\<rparr>) = []"
    by (simp add: validate_parameters_eq default_params_def positive_fields_def
        count_fields_def)
  have t: "tubes (generate_return_geometry (default_params\<lparr>return_depth := - 200\<rparr>)) ! 175 = (- 373 / 2, 2165 / 34, 127 / 16)"
    using return_tubes_nth [of 5 "(default_params\<lparr>return_depth := - 200\<rparr>)" 0]
    by (simp add: row_pitch_def vertical_pitch_def default_params_def)
  obtain F where F: "generate_front_geometry (default_params\<lparr>return_depth := - 200\<rparr>) = Inr F"
    "outer_rect F = (0, 0, casing_width (default_params\<lparr>return_depth := - 200\<rparr>), casing_height (default_params\<lparr>return_depth := - 200\<rparr>))"
    by (rule front_geometry_ok [of "(default_params\<lparr>return_depth := - 200\<rparr>)"]) (simp add: default_params_def)
  obtain L where L: "generate_layout (default_params\<lparr>return_depth := - 200\<rparr>) = Inr L"
    using generate_layout_ok [OF F] by simp
  have boxes: "map view_box (views L) =
            [(400, 0, 1430, 320), (0, 400, 320, 1400 + 650 / 17),
             (400, 400, 1430, 1430), (1910, 400, - 200, 1400 + 650 / 17)]"
    unfolding layout_view_boxes [OF F L]
    by (simp add: casing_width_def casing_height_def vertical_pitch_def default_params_def)
  have len: "length (views L) = 4"
    using arg_cong [OF boxes, of length] by simp
  have b2: "view_box (views L ! 2) = (400, 400, 1430, 1430)"
    using nth_map [of 2 "views L" view_box] len by (simp add: boxes)
  have b3: "view_box (views L ! 3) = (1910, 400, - 200, 1400 + 650 / 17)"
    using nth_map [of 3 "views L" view_box] len by (simp add: boxes)
  have off: "offset_x (views L ! 3) = 1910 \<and> offset_y (views L ! 3) = 400"
  proof -
    have "offset_x (views L ! 3) = header_depth (default_params\<lparr>return_depth := - 200\<rparr>) + VIEW_GAP + casing_width (default_params\<lparr>return_depth := - 200\<rparr>) + VIEW_GAP
        \<and> offset_y (views L ! 3) = header_depth (default_params\<lparr>return_depth := - 200\<rparr>) + VIEW_GAP"
      using L unfolding generate_layout_ok [OF F] by auto
    then show ?thesis
      by (simp add: VIEW_GAP_def casing_width_def default_params_def)
  qed
  have i: "rects_intersect (view_box (views L ! 2)) (view_box (views L ! 3))"
    unfolding b2 b3 by simp
  have d: "\<not> boxes_disjoint (map view_box (views L))"
    unfolding boxes by simp
  have pt: "(offset_x (views L ! 3) + circle_x (tubes (generate_return_geometry (default_params\<lparr>return_depth := - 200\<rparr>)) ! 175),
            offset_y (views L ! 3) + circle_y (tubes (generate_return_geometry (default_params\<lparr>return_depth := - 200\<rparr>)) ! 175))
             \<in> rect_points (view_box (views L ! 2))"
    unfolding t b2 using off by simp
  show ?thesis
    unfolding L using v boxes i d pt by simp
qed

end
